theory Spec2Isabelle
  imports Main "HOL-Library.Sublist"
begin

section \<open>The scaffolder: create-redwood-app.js\<close>

subsection \<open>Strings and console output\<close>

text \<open>
  JavaScript strings are modelled as \<^typ>\<open>string\<close>. Characters outside ASCII are written as
  the bytes of their UTF-8 encoding, which is what the console receives.
\<close>

definition nl :: string where
  "nl = [CHR 0x0A]"

definition apos :: string where
  "apos = [CHR 0x27]"

definition bolt :: string where
  "bolt = [CHR 0xE2, CHR 0x9A, CHR 0xA1, CHR 0xEF, CHR 0xB8, CHR 0x8F]"

definition diamond :: string where
  "diamond = [CHR 0xE2, CHR 0x9D, CHR 0x96]"

definition heart :: string where
  "heart = [CHR 0xE2, CHR 0x9D, CHR 0xA4]"

definition rocket :: string where
  "rocket = [CHR 0xF0, CHR 0x9F, CHR 0x9A, CHR 0x80]"

text \<open>\<open>Array.prototype.join\<close>: the elements separated by \<open>sep\<close>.\<close>

fun join :: "string \<Rightarrow> string list \<Rightarrow> string" where
  "join sep [] = []"
| "join sep [x] = x"
| "join sep (x # y # ys) = x @ sep @ join sep (y # ys)"

text \<open>\<open>s.replace(/,/g, '-')\<close>: every comma of the string becomes a dash.\<close>

definition replace_commas :: "string \<Rightarrow> string" where
  "replace_commas s = map (\<lambda>c. if c = CHR '','' then CHR ''-'' else c) s"

text \<open>
  The colour palette \<open>style\<close> of the script, and the two chalk colours it uses directly.
  What a chalk function does to a string depends on the terminal, so the rendering is a
  parameter of the model.
\<close>

datatype style_key =
  SError | SWarning | SSuccess | SInfo | SHeader | SCmd | SRedwood | SLove | SGreen | SCyan

text \<open>What the process does that can be observed from outside, in the order it happens.\<close>

datatype event =
    ConsoleError string
  | ConsoleLog string
  | ConsoleLogError string
  | TaskStarted string
  | TaskSkipped string "string option"
  | CheckNodeVersion
  | EnsureDirSync
  | CopySync bool
  | Rename
  | Execa string

subsection \<open>The file system and the external programs\<close>

datatype path_state = Missing | IsFile | IsDir "string list"

type_synonym filesystem = "string \<Rightarrow> path_state"

definition existsSync :: "filesystem \<Rightarrow> string \<Rightarrow> bool" where
  "existsSync fsys p = (fsys p \<noteq> Missing)"

definition readdirSync :: "filesystem \<Rightarrow> string \<Rightarrow> string + string list" where
  "readdirSync fsys p =
     (case fsys p of
        IsDir es \<Rightarrow> Inr es
      | IsFile \<Rightarrow> Inl ''ENOTDIR: not a directory, scandir''
      | Missing \<Rightarrow> Inl ''ENOENT: no such file or directory, scandir'')"

text \<open>
  The result object of \<open>check-node-version\<close>: \<open>versions\<close> is an object keyed by the
  dependency's name; \<open>version\<close> and \<open>wanted\<close> are absent (\<open>undefined\<close>) when the
  program was not found or nothing was asked of it.
\<close>

record version_info =
  vi_isSatisfied :: bool
  vi_version :: "string option"
  vi_wanted :: "string option"

record check_result =
  isSatisfied :: bool
  versions :: "(string \<times> version_info) list"

text \<open>A value inside a template literal: \<open>undefined\<close> prints as the word.\<close>

definition tpl :: "string option \<Rightarrow> string" where
  "tpl v = (case v of None \<Rightarrow> ''undefined'' | Some s \<Rightarrow> s)"

text \<open>
  The parsed command line (\<open>yargs(...).argv\<close>): \<open>args\<close> is the array \<open>_\<close> of positional
  arguments, each in its \<open>String\<close> rendering; the three flags are booleans with the
  defaults \<open>true\<close>, \<open>false\<close>, \<open>false\<close>.
\<close>

record argv =
  args :: "string list"
  yarnInstall :: bool
  typescript :: bool
  overwrite :: bool

text \<open>
  Everything the script gets from outside: the chalk rendering, \<open>path.resolve\<close> against the
  working directory, the file system at start, the result of the version check, and what
  the library calls and subprocesses do (an error message when they throw or exit
  non-zero, and the file system they leave behind).
\<close>

record env =
  style :: "style_key \<Rightarrow> string \<Rightarrow> string"
  path_resolve :: "string \<Rightarrow> string"
  fs0 :: filesystem
  checkNodeVersion :: check_result
  ensureDirSync :: "string option"
  copySync :: "bool \<Rightarrow> filesystem \<Rightarrow> string option \<times> filesystem"
  execa :: "string \<Rightarrow> filesystem \<Rightarrow> string option \<times> filesystem"

subsection \<open>The process and the task runner\<close>

record proc =
  fs :: filesystem
  out :: "event list"

definition emit :: "event \<Rightarrow> proc \<Rightarrow> proc" where
  "emit e s = s\<lparr>out := out s @ [e]\<rparr>"

text \<open>
  How a task ends: its promise resolves, it rejects (or the task throws), or the task
  calls \<open>process.exit\<close> and the process is gone.
\<close>

datatype outcome = Completed | Raised string | Exited nat

text \<open>What a task's \<open>skip\<close> function returns: nothing, a message, or \<open>true\<close>.\<close>

datatype skip_result = NoSkip | SkipMessage string | SkipTrue

record task =
  title :: string
  enabled :: bool
  skip :: skip_result
  task_fn :: "proc \<Rightarrow> outcome \<times> proc"

text \<open>
  \<open>new Listr(tasks, {exitOnError: true}).run()\<close>: the tasks one after the other. A task
  that is not enabled is left out. An enabled task is first set pending, which the
  renderer reports as started; only then is its \<open>skip\<close> function asked, and when that
  answers the task is marked as skipped and its function is not called. The first task
  that does not complete ends the run.
\<close>

fun Listr_run :: "task list \<Rightarrow> proc \<Rightarrow> outcome \<times> proc" where
  "Listr_run [] s = (Completed, s)"
| "Listr_run (t # ts) s =
     (if \<not> enabled t then Listr_run ts s
      else case skip t of
        SkipMessage m \<Rightarrow>
          Listr_run ts (emit (TaskSkipped (title t) (Some m)) (emit (TaskStarted (title t)) s))
      | SkipTrue \<Rightarrow>
          Listr_run ts (emit (TaskSkipped (title t) None) (emit (TaskStarted (title t)) s))
      | NoSkip \<Rightarrow>
          (case task_fn t (emit (TaskStarted (title t)) s) of
             (Completed, s') \<Rightarrow> Listr_run ts s'
           | (r, s') \<Rightarrow> (r, s')))"

subsection \<open>The script\<close>

definition targetDir :: "argv \<Rightarrow> string" where
  "targetDir a = replace_commas (join '','' (args a))"

definition newAppDir :: "env \<Rightarrow> argv \<Rightarrow> string" where
  "newAppDir e a = path_resolve e (targetDir a)"

definition appDirExists :: "env \<Rightarrow> argv \<Rightarrow> bool" where
  "appDirExists e a = existsSync (fs0 e) (newAppDir e a)"

definition usage_hint :: "env \<Rightarrow> event list" where
  "usage_hint e =
     [ConsoleError ''Please specify the project directory'',
      ConsoleLog (''  '' @ style e SCyan ''yarn create redwood-app'' @ '' ''
                  @ style e SGreen ''<project-directory>''),
      ConsoleLog [],
      ConsoleLog ''For example:'',
      ConsoleLog (''  '' @ style e SCyan ''yarn create redwood-app'' @ '' ''
                  @ style e SGreen ''my-redwood-app'')]"

text \<open>
  The lines of the error of a failed version check, before they are joined. The script
  walks \<open>Object.keys(result.versions)\<close> and reads \<open>result.versions[name]\<close> for each
  name; a name taken from the keys always has its entry, so the \<open>None\<close> branches are
  never reached.
\<close>

definition notSatisfied :: "(string \<times> version_info) list \<Rightarrow> string \<Rightarrow> bool" where
  "notSatisfied vs name =
     (case map_of vs name of Some info \<Rightarrow> \<not> vi_isSatisfied info | None \<Rightarrow> False)"

definition versionMessage :: "env \<Rightarrow> (string \<times> version_info) list \<Rightarrow> string \<Rightarrow> string" where
  "versionMessage e vs name =
     (case map_of vs name of
        Some info \<Rightarrow>
          style e SError (name @ '' '' @ tpl (vi_wanted info)
                          @ '' required, but you have '' @ tpl (vi_version info))
      | None \<Rightarrow> [])"

definition logStatements :: "env \<Rightarrow> check_result \<Rightarrow> string list" where
  "logStatements e r =
     map (versionMessage e (versions r)) (filter (notSatisfied (versions r)) (map fst (versions r)))
     @ [style e SHeader (nl @ ''Visit requirements documentation:'')]
     @ [style e SWarning
         (''https://learn.redwoodjs.com/docs/tutorial/prerequisites/#nodejs-and-yarn-versions''
          @ nl)]"

text \<open>
  The version check: the callback ignores its error argument and looks at the result only.
  The \<open>engines\<close> it asks for come from the template's own \<open>package.json\<close>.
\<close>

definition checkVersionsTask :: "env \<Rightarrow> proc \<Rightarrow> outcome \<times> proc" where
  "checkVersionsTask e s =
     (let s1 = emit CheckNodeVersion s; result = checkNodeVersion e
      in if isSatisfied result then (Completed, s1)
         else (Raised (join nl (logStatements e result)), s1))"

text \<open>
  The copy of the template. The \<open>fs.rename\<close> of the gitignore file that follows it is
  started and not awaited, so its outcome has no part in the outcome of the task.
\<close>

definition copyTemplate :: "env \<Rightarrow> argv \<Rightarrow> proc \<Rightarrow> outcome \<times> proc" where
  "copyTemplate e a s =
     (case copySync e (overwrite a) (fs s) of
        (Some err, fs') \<Rightarrow> (Raised err, (emit (CopySync (overwrite a)) s)\<lparr>fs := fs'\<rparr>)
      | (None, fs') \<Rightarrow>
          (Completed, emit Rename ((emit (CopySync (overwrite a)) s)\<lparr>fs := fs'\<rparr>)))"

definition notEmptyMessage :: "env \<Rightarrow> argv \<Rightarrow> string" where
  "notEmptyMessage e a =
     style e SError (nl @ apos @ newAppDir e a @ apos @ '' already exists and is not empty''
                     @ nl)"

definition createDirectoryTask :: "env \<Rightarrow> argv \<Rightarrow> proc \<Rightarrow> outcome \<times> proc" where
  "createDirectoryTask e a s =
     (if appDirExists e a \<and> \<not> overwrite a then
        (case readdirSync (fs s) (newAppDir e a) of
           Inl err \<Rightarrow> (Raised err, s)
         | Inr entries \<Rightarrow>
             if length entries > 0 then
               (Exited 1, emit (ConsoleError (notEmptyMessage e a)) s)
             else copyTemplate e a s)
      else
        (case ensureDirSync e of
           Some err \<Rightarrow> (Raised err, emit EnsureDirSync s)
         | None \<Rightarrow> copyTemplate e a (emit EnsureDirSync s)))"

definition execaTask :: "env \<Rightarrow> string \<Rightarrow> proc \<Rightarrow> outcome \<times> proc" where
  "execaTask e cmd s =
     (case execa e cmd (fs s) of
        (Some err, fs') \<Rightarrow> (Raised err, (emit (Execa cmd) s)\<lparr>fs := fs'\<rparr>)
      | (None, fs') \<Rightarrow> (Completed, (emit (Execa cmd) s)\<lparr>fs := fs'\<rparr>))"

definition directoryTitle :: "env \<Rightarrow> argv \<Rightarrow> string" where
  "directoryTitle e a =
     (if appDirExists e a then ''Using'' else ''Creating'')
     @ '' directory '' @ apos @ newAppDir e a @ apos"

definition installTitle :: string where
  "installTitle = ''Running '' @ apos @ ''yarn install'' @ apos
                  @ ''... (This could take a while)''"

definition createProjectTasks :: "env \<Rightarrow> argv \<Rightarrow> task list" where
  "createProjectTasks e a =
     [\<lparr>title = ''Checking node and yarn compatibility'',
       enabled = True,
       skip = (if yarnInstall a = False then SkipMessage ''Warning: skipping check on request''
               else NoSkip),
       task_fn = checkVersionsTask e\<rparr>,
      \<lparr>title = directoryTitle e a,
       enabled = True,
       skip = NoSkip,
       task_fn = createDirectoryTask e a\<rparr>]"

definition installNodeModulesTasks :: "env \<Rightarrow> argv \<Rightarrow> task list" where
  "installNodeModulesTasks e a =
     [\<lparr>title = installTitle,
       enabled = True,
       skip = (if yarnInstall a = False then SkipMessage ''skipped on request'' else NoSkip),
       task_fn = execaTask e ''yarn install''\<rparr>]"

definition mainTasks :: "env \<Rightarrow> argv \<Rightarrow> task list" where
  "mainTasks e a =
     [\<lparr>title = ''Creating Redwood app'',
       enabled = True,
       skip = NoSkip,
       task_fn = Listr_run (createProjectTasks e a)\<rparr>,
      \<lparr>title = ''Installing packages'',
       enabled = True,
       skip = NoSkip,
       task_fn = Listr_run (installNodeModulesTasks e a)\<rparr>,
      \<lparr>title = ''Convert TypeScript files to JavaScript'',
       enabled = (typescript a = False \<and> yarnInstall a = True),
       skip = NoSkip,
       task_fn = execaTask e ''yarn rw ts-to-js''\<rparr>,
      \<lparr>title = ''Generating types'',
       enabled = True,
       skip = (if yarnInstall a = False then SkipTrue else NoSkip),
       task_fn = execaTask e ''yarn rw-gen''\<rparr>]"

definition successLines :: "env \<Rightarrow> argv \<Rightarrow> string list" where
  "successLines e a =
     [[],
      style e SSuccess ''Thanks for trying out Redwood!'',
      [],
      '' '' @ bolt @ '' ''
        @ style e SRedwood ''Get up and running fast with this Quick Start guide''
        @ '': https://redwoodjs.com/docs/quick-start'',
      [],
      style e SHeader ''Join the Community'',
      [],
      style e SRedwood ('' '' @ diamond @ '' Join our Forums'')
        @ '': https://community.redwoodjs.com'',
      style e SRedwood ('' '' @ diamond @ '' Join our Chat'')
        @ '': https://discord.gg/redwoodjs'',
      [],
      style e SHeader ''Get some help'',
      [],
      style e SRedwood ('' '' @ diamond @ '' Get started with the Tutorial'')
        @ '': https://redwoodjs.com/tutorial'',
      style e SRedwood ('' '' @ diamond @ '' Read the Documentation'')
        @ '': https://redwoodjs.com/docs'',
      [],
      style e SHeader ''Stay updated'',
      [],
      style e SRedwood ('' '' @ diamond @ '' Sign up for our Newsletter'')
        @ '': https://www.redwoodjs.com/newsletter'',
      style e SRedwood ('' '' @ diamond @ '' Follow us on Twitter'')
        @ '': https://twitter.com/redwoodjs'',
      [],
      style e SHeader ''Become a Contributor'' @ '' '' @ style e SLove heart,
      [],
      style e SRedwood ('' '' @ diamond @ '' Learn how to get started'')
        @ '': https://redwoodjs.com/docs/contributing'',
      style e SRedwood ('' '' @ diamond @ '' Find a Good First Issue'')
        @ '': https://redwoodjs.com/good-first-issue'',
      [],
      style e SHeader ''Fire it up!'' @ '' '' @ rocket,
      [],
      style e SRedwood ('' > '' @ style e SGreen (''cd '' @ targetDir a)),
      style e SRedwood ('' > '' @ style e SGreen ''yarn rw dev''),
      []]"

definition createdWarning :: "env \<Rightarrow> argv \<Rightarrow> string" where
  "createdWarning e a =
     style e SWarning (nl @ ''Warning: Directory '')
     @ style e SCmd (apos @ newAppDir e a @ apos @ '' '')
     @ style e SWarning
         (''was created. However, the installation could not complete due to an error.''
          @ nl)"

text \<open>The \<open>.catch\<close> handler of the run.\<close>

definition catchHandler :: "env \<Rightarrow> argv \<Rightarrow> string \<Rightarrow> proc \<Rightarrow> event list" where
  "catchHandler e a err s =
     [ConsoleLog [], ConsoleLogError err]
     @ (if existsSync (fs s) (newAppDir e a) then [ConsoleLog (createdWarning e a)] else [])"

text \<open>What a run of the script leaves: its trace, its exit code and the file system.\<close>

record run_result =
  trace :: "event list"
  exit_code :: nat
  final_fs :: filesystem

definition runTasks :: "env \<Rightarrow> argv \<Rightarrow> outcome \<times> proc" where
  "runTasks e a = Listr_run (mainTasks e a) \<lparr>fs = fs0 e, out = []\<rparr>"

definition main :: "env \<Rightarrow> argv \<Rightarrow> run_result" where
  "main e a =
     (if targetDir a = [] then
        \<lparr>trace = usage_hint e, exit_code = 1, final_fs = fs0 e\<rparr>
      else
        (case runTasks e a of
           (Completed, s) \<Rightarrow>
             \<lparr>trace = out s @ map ConsoleLog (successLines e a), exit_code = 0,
              final_fs = fs s\<rparr>
         | (Raised err, s) \<Rightarrow>
             \<lparr>trace = out s @ catchHandler e a err s, exit_code = 1, final_fs = fs s\<rparr>
         | (Exited n, s) \<Rightarrow>
             \<lparr>trace = out s, exit_code = n, final_fs = fs s\<rparr>))"

section \<open>The GraphQL provider\<close>

subsection \<open>Operations, requests and links\<close>

type_synonym headers = "string \<rightharpoonup> string"

text \<open>The \<open>token\<close> entry of an operation's context: not set, \<open>null\<close>, or a string.\<close>

datatype token = TUndefined | TNull | TString string

text \<open>\<open>token ? ... : ...\<close>: \<open>undefined\<close>, \<open>null\<close> and the empty string are falsy.\<close>

fun truthy_token :: "token \<Rightarrow> bool" where
  "truthy_token (TString s) = (s \<noteq> [])"
| "truthy_token _ = False"

record operation =
  op_query :: string
  ctx_token :: token
  ctx_headers :: headers

record request =
  req_uri :: string
  req_query :: string
  req_headers :: headers

text \<open>
  What comes of passing an operation down a chain of links: nothing, an error, or the
  HTTP request that the terminating link sends.
\<close>

datatype response = NoResult | Failed string | Sent request

text \<open>A link handles an operation and may hand it on with \<open>forward\<close>.\<close>

type_synonym link = "operation \<Rightarrow> (operation \<Rightarrow> response) \<Rightarrow> response"

text \<open>\<open>first.concat(second)\<close> and \<open>ApolloLink.from(links)\<close>.\<close>

definition concat_link :: "link \<Rightarrow> link \<Rightarrow> link" where
  "concat_link first second = (\<lambda>op forward. first op (\<lambda>op'. second op' forward))"

fun from_links :: "link list \<Rightarrow> link" where
  "from_links [] = (\<lambda>op forward. NoResult)"
| "from_links (l # ls) = foldl concat_link l ls"

text \<open>\<open>execute(link, operation)\<close>: the chain is run with nothing behind it.\<close>

definition execute :: "link \<Rightarrow> operation \<Rightarrow> response" where
  "execute l op = l op (\<lambda>op'. NoResult)"

definition sent_header :: "response \<Rightarrow> string \<Rightarrow> string option" where
  "sent_header r name = (case r of Sent req \<Rightarrow> req_headers req name | _ \<Rightarrow> None)"

subsection \<open>What the provider is given\<close>

text \<open>
  The result of \<open>useAuth()\<close>: \<open>getToken\<close> is absent or an asynchronous function, given
  here by what its promise settles to (\<open>Inl\<close> when it rejects); \<open>auth_type\<close> is the field
  \<open>type\<close>.
\<close>

record auth =
  isAuthenticated :: bool
  getToken :: "(string + token) option"
  auth_type :: string

text \<open>
  The result of \<open>useFetchConfig()\<close>. The hook belongs to \<open>FetchConfigProvider\<close>, whose
  source is not part of the files at hand, so the headers and the URI it supplies are
  parameters. An absent \<open>headers\<close> object spreads to nothing and is the empty map.
\<close>

record fetch_config =
  fc_headers :: headers
  fc_uri :: string

text \<open>
  The values found in a configuration object and in the options of the client: plain
  data, link objects, functions from links to links, and an \<open>InMemoryCache\<close> built from
  its configuration.
\<close>

datatype js_value =
    JUndefined
  | JNull
  | JBool bool
  | JNum int
  | JStr string
  | JObj "(string \<times> js_value) list"
  | JLink link
  | JFunction "link \<Rightarrow> link"
  | InMemoryCache js_value

type_synonym js_object = "string \<rightharpoonup> js_value"

fun truthy :: "js_value \<Rightarrow> bool" where
  "truthy JUndefined = False"
| "truthy JNull = False"
| "truthy (JBool b) = b"
| "truthy (JNum n) = (n \<noteq> 0)"
| "truthy (JStr s) = (s \<noteq> [])"
| "truthy _ = True"

text \<open>Reading a property: a missing one reads as \<open>undefined\<close>.\<close>

definition getProp :: "js_object \<Rightarrow> string \<Rightarrow> js_value" where
  "getProp obj k = (case obj k of None \<Rightarrow> JUndefined | Some v \<Rightarrow> v)"

subsection \<open>The links of the provider\<close>

text \<open>
  The function given to \<open>setContext\<close>: the context entries it resolves to, or the error
  of a rejected \<open>getToken\<close>.
\<close>

definition tokenContext :: "auth \<Rightarrow> string + token" where
  "tokenContext au =
     (case getToken au of
        Some settled \<Rightarrow> if isAuthenticated au then settled else Inr TNull
      | None \<Rightarrow> Inr TNull)"

text \<open>\<open>setContext(setter)\<close> merges what the setter resolves to into the context.\<close>

definition withToken :: "auth \<Rightarrow> link" where
  "withToken au op forward =
     (case tokenContext au of
        Inl err \<Rightarrow> Failed err
      | Inr tok \<Rightarrow> forward (op\<lparr>ctx_token := tok\<rparr>))"

text \<open>The token inside the template literal \<open>`Bearer ${token}`\<close>.\<close>

fun token_text :: "token \<Rightarrow> string" where
  "token_text (TString t) = t"
| "token_text TNull = ''null''"
| "token_text TUndefined = ''undefined''"

definition authHeaders :: "auth \<Rightarrow> token \<Rightarrow> headers" where
  "authHeaders au tok =
     (if truthy_token tok
      then [''auth-provider'' \<mapsto> auth_type au,
            ''authorization'' \<mapsto> ''Bearer '' @ token_text tok]
      else Map.empty)"

definition authMiddleware :: "auth \<Rightarrow> fetch_config \<Rightarrow> link" where
  "authMiddleware au fc op forward =
     forward (op\<lparr>ctx_headers := fc_headers fc ++ authHeaders au (ctx_token op)\<rparr>)"

text \<open>
  \<open>new HttpLink({ uri })\<close>, the terminating link: it sends the operation to the URI and
  does not call \<open>forward\<close>. The headers of the request are the two headers the library
  puts on every request, overridden by the headers of the context; the names are kept as
  they are given.
\<close>

definition fallbackHeaders :: headers where
  "fallbackHeaders = [''accept'' \<mapsto> ''*/*'', ''content-type'' \<mapsto> ''application/json'']"

definition httpLink :: "string \<Rightarrow> link" where
  "httpLink uri op forward =
     Sent \<lparr>req_uri = uri, req_query = op_query op,
           req_headers = fallbackHeaders ++ ctx_headers op\<rparr>"

definition rwLink :: "auth \<Rightarrow> fetch_config \<Rightarrow> link" where
  "rwLink au fc = from_links [withToken au, authMiddleware au fc, httpLink (fc_uri fc)]"

subsection \<open>The client\<close>

definition defaultOptions :: js_value where
  "defaultOptions =
     JObj [(''watchQuery'',
            JObj [(''fetchPolicy'', JStr ''cache-and-network''),
                  (''notifyOnNetworkStatusChange'', JBool True)])]"

text \<open>
  \<open>const { link: userLink, cacheConfig, ...rest } = config ?? {}\<close>: \<open>rest\<close> is the
  configuration without the two named properties.
\<close>

definition rest :: "js_object \<Rightarrow> js_object" where
  "rest config = config |` (- {''link'', ''cacheConfig''})"

definition clientLink :: "auth \<Rightarrow> fetch_config \<Rightarrow> js_object \<Rightarrow> js_value" where
  "clientLink au fc config =
     (let userLink = getProp config ''link''
      in if truthy userLink then
           (case userLink of
              JFunction f \<Rightarrow> JLink (f (rwLink au fc))
            | v \<Rightarrow> v)
         else JLink (rwLink au fc))"

text \<open>
  The options object given to \<open>new ApolloClient\<close>; the provider's argument \<open>config\<close> may
  be missing, which stands for the empty object.
\<close>

definition clientOptions :: "auth \<Rightarrow> fetch_config \<Rightarrow> js_object option \<Rightarrow> js_object" where
  "clientOptions au fc config =
     (let cfg = (case config of None \<Rightarrow> Map.empty | Some c \<Rightarrow> c)
      in [''link'' \<mapsto> clientLink au fc cfg,
          ''cache'' \<mapsto> InMemoryCache (getProp cfg ''cacheConfig''),
          ''defaultOptions'' \<mapsto> defaultOptions]
         ++ rest cfg)"

subsection \<open>Auxiliary notions for the scaffolder's properties\<close>

fun is_step :: "event \<Rightarrow> bool" where
  "is_step (TaskStarted _) = True"
| "is_step CheckNodeVersion = True"
| "is_step (CopySync _) = True"
| "is_step (Execa _) = True"
| "is_step _ = False"

definition steps :: "event list \<Rightarrow> event list" where
  "steps es = filter is_step es"

definition fixedOrder :: "env \<Rightarrow> argv \<Rightarrow> event list" where
  "fixedOrder e a =
     [TaskStarted ''Creating Redwood app'',
      TaskStarted ''Checking node and yarn compatibility'',
      CheckNodeVersion,
      TaskStarted (directoryTitle e a),
      CopySync (overwrite a),
      TaskStarted ''Installing packages'',
      TaskStarted installTitle,
      Execa ''yarn install'',
      TaskStarted ''Convert TypeScript files to JavaScript'',
      Execa ''yarn rw ts-to-js'',
      TaskStarted ''Generating types'',
      Execa ''yarn rw-gen'']"

definition within :: "(proc \<Rightarrow> outcome \<times> proc) \<Rightarrow> event list \<Rightarrow> bool" where
  "within f F = (\<forall>s. \<exists>ys. out (snd (f s)) = out s @ ys \<and> subseq (steps ys) F)"

definition exits_one :: "(proc \<Rightarrow> outcome \<times> proc) \<Rightarrow> bool" where
  "exits_one f = (\<forall>s n. fst (f s) = Exited n \<longrightarrow> n = 1)"

definition example_env :: env where
  "example_env =
     \<lparr>style = (\<lambda>k s. s),
      path_resolve = (\<lambda>p. ''/work/'' @ p),
      fs0 = (\<lambda>p. Missing),
      checkNodeVersion =
        \<lparr>isSatisfied = True,
         versions = [(''node'', \<lparr>vi_isSatisfied = True, vi_version = Some ''14.17.0'',
                                 vi_wanted = Some ''>=14''\<rparr>)]\<rparr>,
      ensureDirSync = None,
      copySync = (\<lambda>ov fsys. (None, fsys(''/work/my-app'' := IsDir [''package.json'']))),
      execa = (\<lambda>cmd fsys. (None, fsys))\<rparr>"

definition example_argv :: argv where
  "example_argv = \<lparr>args = [''my-app''], yarnInstall = True, typescript = False,
                    overwrite = False\<rparr>"

definition old_node :: check_result where
  "old_node =
     \<lparr>isSatisfied = False,
      versions = [(''node'', \<lparr>vi_isSatisfied = False, vi_version = Some ''12.0.0'',
                              vi_wanted = Some ''>=14''\<rparr>),
                  (''yarn'', \<lparr>vi_isSatisfied = True, vi_version = Some ''1.22.0'',
                              vi_wanted = Some ''>1.15''\<rparr>)]\<rparr>"

definition install_fails :: env where
  "install_fails =
     example_env\<lparr>execa := (\<lambda>cmd fsys.
        if cmd = ''yarn install'' then (Some ''Command failed: yarn install'', fsys)
        else (None, fsys))\<rparr>"

definition occupied :: env where
  "occupied = example_env\<lparr>fs0 := (\<lambda>p. if p = ''/work/my-app'' then IsDir [''README.md'']
                                        else Missing)\<rparr>"

subsection \<open>Example inputs for the provider\<close>

definition signed_in :: auth where
  "signed_in = \<lparr>isAuthenticated = True, getToken = Some (Inr (TString ''abc123'')),
                 auth_type = ''netlify''\<rparr>"

definition expired :: auth where
  "expired = \<lparr>isAuthenticated = True, getToken = Some (Inr TNull), auth_type = ''netlify''\<rparr>"

definition plain_config :: fetch_config where
  "plain_config = \<lparr>fc_headers = Map.empty, fc_uri = ''/.redwood/functions/graphql''\<rparr>"

definition duped_config :: fetch_config where
  "duped_config =
     \<lparr>fc_headers = [''auth-provider'' \<mapsto> ''netlify'', ''authorization'' \<mapsto> ''Bearer stale''],
      fc_uri = ''/.redwood/functions/graphql''\<rparr>"

definition example_op :: operation where
  "example_op = \<lparr>op_query = ''query { posts { id } }'', ctx_token = TUndefined,
                  ctx_headers = Map.empty\<rparr>"

definition passLink :: link where
  "passLink op forward = forward op"

definition wrapLink :: "link \<Rightarrow> link" where
  "wrapLink rw = concat_link passLink rw"

definition example_config :: js_object where
  "example_config =
     [''uri'' \<mapsto> JStr ''/api/graphql'',
      ''defaultOptions'' \<mapsto> JObj [],
      ''cacheConfig'' \<mapsto> JObj [(''addTypename'', JBool False)],
      ''link'' \<mapsto> JFunction wrapLink]"

definition own_cache_config :: js_object where
  "own_cache_config =
     [''cache'' \<mapsto> InMemoryCache (JObj [(''resultCaching'', JBool False)]),
      ''cacheConfig'' \<mapsto> JObj [(''addTypename'', JBool False)]]"

section \<open>Properties of the scaffolder\<close>

subsection \<open>The task runner\<close>

lemmas script_defs =
  main_def runTasks_def mainTasks_def createProjectTasks_def installNodeModulesTasks_def
  checkVersionsTask_def createDirectoryTask_def copyTemplate_def execaTask_def
  catchHandler_def emit_def targetDir_def newAppDir_def appDirExists_def existsSync_def
  readdirSync_def replace_commas_def directoryTitle_def installTitle_def

lemma withinI: "(\<And>s. \<exists>ys. out (snd (f s)) = out s @ ys \<and> subseq (steps ys) F) \<Longrightarrow> within f F"
  by (simp add: within_def)

lemma withinD: "within f F \<Longrightarrow> \<exists>ys. out (snd (f s)) = out s @ ys \<and> subseq (steps ys) F"
  by (simp add: within_def)


lemma within_Nil: "within (Listr_run []) []"
  by (simp add: within_def steps_def)

lemma within_Cons:
  assumes t: "within (task_fn t) F" and ts: "within (Listr_run ts) G"
  shows "within (Listr_run (t # ts)) (TaskStarted (title t) # F @ G)"
proof (rule withinI)
  fix s
  let ?H = "TaskStarted (title t) # F @ G"
  let ?s1 = "emit (TaskStarted (title t)) s"
  have drop: "subseq zs G \<Longrightarrow> subseq zs (F @ G)" for zs
    by (rule subseq_drop_many)
  have skipped: "\<exists>ys. out (snd (Listr_run ts (emit ev ?s1))) = out s @ ys \<and> subseq (steps ys) ?H"
    if "\<not> is_step ev" for ev
  proof -
    from withinD[OF ts, of "emit ev ?s1"] obtain zs where
      zs: "out (snd (Listr_run ts (emit ev ?s1))) = out (emit ev ?s1) @ zs" "subseq (steps zs) G"
      by blast
    have "out (snd (Listr_run ts (emit ev ?s1))) = out s @ (TaskStarted (title t) # ev # zs)"
      using zs(1) by (simp add: emit_def)
    moreover have "subseq (steps (TaskStarted (title t) # ev # zs)) ?H"
      using drop[OF zs(2)] that by (simp add: steps_def)
    ultimately show ?thesis by blast
  qed
  show "\<exists>ys. out (snd (Listr_run (t # ts) s)) = out s @ ys \<and> subseq (steps ys) ?H"
  proof (cases "enabled t")
    case False
    from withinD[OF ts, of s] obtain zs where
      "out (snd (Listr_run ts s)) = out s @ zs" "subseq (steps zs) G" by blast
    then show ?thesis using False drop by auto
  next
    case en: True
    show ?thesis
    proof (cases "skip t")
      case (SkipMessage m)
      then show ?thesis using en skipped[of "TaskSkipped (title t) (Some m)"] by simp
    next
      case SkipTrue
      then show ?thesis using en skipped[of "TaskSkipped (title t) None"] by simp
    next
      case NoSkip
      obtain r s2 where run: "task_fn t ?s1 = (r, s2)" by (cases "task_fn t ?s1")
      from withinD[OF t, of ?s1] run obtain ys where
        ys: "out s2 = out ?s1 @ ys" "subseq (steps ys) F" by auto
      have out2: "out s2 = out s @ (TaskStarted (title t) # ys)"
        using ys(1) by (simp add: emit_def)
      have stop: "subseq (steps (TaskStarted (title t) # ys)) ?H"
        using ys(2) by (simp add: steps_def) (metis subseq_rev_drop_many)
      show ?thesis
      proof (cases r)
        case Completed
        from withinD[OF ts, of s2] obtain zs where
          zs: "out (snd (Listr_run ts s2)) = out s2 @ zs" "subseq (steps zs) G" by blast
        have "out (snd (Listr_run (t # ts) s)) = out s @ (TaskStarted (title t) # ys @ zs)"
          using en NoSkip run Completed zs(1) out2 by simp
        moreover have "subseq (steps (TaskStarted (title t) # ys @ zs)) ?H"
          using ys(2) zs(2) by (simp add: steps_def list_emb_append_mono)
        ultimately show ?thesis by blast
      next
        case (Raised err)
        have "out (snd (Listr_run (t # ts) s)) = out s @ (TaskStarted (title t) # ys)"
          using en NoSkip run Raised out2 by simp
        then show ?thesis using stop by blast
      next
        case (Exited n)
        have "out (snd (Listr_run (t # ts) s)) = out s @ (TaskStarted (title t) # ys)"
          using en NoSkip run Exited out2 by simp
        then show ?thesis using stop by blast
      qed
    qed
  qed
qed

lemma within_checkVersionsTask: "within (checkVersionsTask e) [CheckNodeVersion]"
  by (rule withinI) (simp add: checkVersionsTask_def Let_def emit_def steps_def)

lemma within_execaTask: "within (execaTask e cmd) [Execa cmd]"
  by (rule withinI) (simp add: execaTask_def emit_def steps_def split: prod.splits option.splits)

lemma within_copyTemplate: "within (copyTemplate e a) [CopySync (overwrite a)]"
  by (rule withinI) (simp add: copyTemplate_def emit_def steps_def split: prod.splits option.splits)

lemma within_createDirectoryTask: "within (createDirectoryTask e a) [CopySync (overwrite a)]"
proof (rule withinI)
  fix s
  from withinD[OF within_copyTemplate, of e a s] obtain ys where
    ys: "out (snd (copyTemplate e a s)) = out s @ ys" "subseq (steps ys) [CopySync (overwrite a)]"
    by blast
  from withinD[OF within_copyTemplate, of e a "emit EnsureDirSync s"] obtain zs where
    zs: "out (snd (copyTemplate e a (emit EnsureDirSync s))) = out s @ EnsureDirSync # zs"
        "subseq (steps zs) [CopySync (overwrite a)]"
    by (auto simp: emit_def)
  have zs': "subseq (steps (EnsureDirSync # zs)) [CopySync (overwrite a)]"
    using zs(2) by (simp add: steps_def)
  show "\<exists>ys. out (snd (createDirectoryTask e a s)) = out s @ ys
          \<and> subseq (steps ys) [CopySync (overwrite a)]"
    unfolding createDirectoryTask_def
    using ys zs(1) zs'
    by (auto simp: emit_def steps_def split: sum.splits option.splits)
qed


lemma within_task:
  assumes "within f F" and "within (Listr_run ts) G"
  shows "within (Listr_run (\<lparr>title = ti, enabled = en, skip = sk, task_fn = f\<rparr> # ts))
           (TaskStarted ti # F @ G)"
  using within_Cons[of "\<lparr>title = ti, enabled = en, skip = sk, task_fn = f\<rparr>" F ts G] assms
  by simp

lemma within_createProjectTasks:
  "within (Listr_run (createProjectTasks e a))
     [TaskStarted ''Checking node and yarn compatibility'', CheckNodeVersion,
      TaskStarted (directoryTitle e a), CopySync (overwrite a)]"
  unfolding createProjectTasks_def
  using within_task[OF within_checkVersionsTask
      within_task[OF within_createDirectoryTask within_Nil]]
  by simp

lemma within_installNodeModulesTasks:
  "within (Listr_run (installNodeModulesTasks e a))
     [TaskStarted installTitle, Execa ''yarn install'']"
  unfolding installNodeModulesTasks_def
  using within_task[OF within_execaTask within_Nil]
  by simp




lemma steps_usage: "steps (usage_hint e) = []"
  by (simp add: usage_hint_def steps_def)



lemma exits_one_Listr:
  "(\<And>t. t \<in> set ts \<Longrightarrow> exits_one (task_fn t)) \<Longrightarrow> exits_one (Listr_run ts)"
proof (induction ts)
  case Nil
  show ?case by (simp add: exits_one_def)
next
  case (Cons t ts)
  have t: "exits_one (task_fn t)" and ts: "exits_one (Listr_run ts)"
    using Cons by simp_all
  show ?case
    unfolding exits_one_def
  proof (intro allI impI)
    fix s n
    assume ex: "fst (Listr_run (t # ts) s) = Exited n"
    show "n = 1"
    proof (cases "enabled t \<and> skip t = NoSkip")
      case False
      then have "\<exists>s'. Listr_run (t # ts) s = Listr_run ts s'"
        by (cases "skip t") auto
      then show ?thesis using ex ts by (auto simp: exits_one_def)
    next
      case True
      obtain r s1 where run: "task_fn t (emit (TaskStarted (title t)) s) = (r, s1)"
        by (cases "task_fn t (emit (TaskStarted (title t)) s)")
      show ?thesis
      proof (cases r)
        case Completed
        then have "Listr_run (t # ts) s = Listr_run ts s1" using True run by simp
        then show ?thesis using ex ts by (auto simp: exits_one_def)
      next
        case (Raised err)
        then show ?thesis using True run ex by simp
      next
        case (Exited m)
        then have "m = n" using True run ex by simp
        moreover have "m = 1"
          using t run Exited unfolding exits_one_def by (metis fst_conv)
        ultimately show ?thesis by simp
      qed
    qed
  qed
qed

lemma exits_one_execaTask: "exits_one (execaTask e cmd)"
  by (simp add: exits_one_def execaTask_def split: prod.splits option.splits)

lemma exits_one_checkVersionsTask: "exits_one (checkVersionsTask e)"
  by (simp add: exits_one_def checkVersionsTask_def Let_def)

lemma exits_one_copyTemplate: "exits_one (copyTemplate e a)"
  by (simp add: exits_one_def copyTemplate_def split: prod.splits option.splits)

lemma exits_one_createDirectoryTask: "exits_one (createDirectoryTask e a)"
  using exits_one_copyTemplate[of e a]
  by (auto simp: exits_one_def createDirectoryTask_def split: sum.splits option.splits)

lemma exits_one_mainTasks: "exits_one (Listr_run (mainTasks e a))"
proof (rule exits_one_Listr)
  fix t assume "t \<in> set (mainTasks e a)"
  moreover have "exits_one (Listr_run (createProjectTasks e a))"
    by (rule exits_one_Listr)
       (auto simp: createProjectTasks_def exits_one_checkVersionsTask
          exits_one_createDirectoryTask)
  moreover have "exits_one (Listr_run (installNodeModulesTasks e a))"
    by (rule exits_one_Listr) (auto simp: installNodeModulesTasks_def exits_one_execaTask)
  ultimately show "exits_one (task_fn t)"
    by (auto simp: mainTasks_def exits_one_execaTask)
qed

lemma runTasks_Exited: "runTasks e a = (Exited n, s) \<Longrightarrow> n = 1"
  using exits_one_mainTasks[of e a] unfolding exits_one_def runTasks_def
  by (metis fst_conv)

lemma exit_code_cases: "exit_code (main e a) = 0 \<or> exit_code (main e a) = 1"
  by (auto simp: main_def split: prod.splits outcome.splits dest: runTasks_Exited)









lemma replace_commas_append: "replace_commas (xs @ ys) = replace_commas xs @ replace_commas ys"
  by (simp add: replace_commas_def)

lemma replace_commas_Cons:
  "replace_commas (c # cs) = (if c = CHR '','' then CHR ''-'' else c) # replace_commas cs"
  by (simp add: replace_commas_def)

lemma replace_commas_join:
  "replace_commas (join '','' xs) = join ''-'' (map replace_commas xs)"
  by (induction "'',''" xs rule: join.induct)
     (simp_all add: replace_commas_append replace_commas_Cons, simp add: replace_commas_def)

lemma replace_commas_id: "CHR '','' \<notin> set x \<Longrightarrow> replace_commas x = x"
  by (induction x) (auto simp: replace_commas_def)

lemma join_nonempty: "length xs > 1 \<Longrightarrow> sep \<noteq> [] \<Longrightarrow> join sep xs \<noteq> []"
  by (induction sep xs rule: join.induct) auto

lemma out_runTasks_first:
  "\<exists>ys. out (snd (runTasks e a)) = TaskStarted ''Creating Redwood app'' # ys"
proof -
  let ?s0 = "\<lparr>fs = fs0 e, out = []\<rparr>"
  let ?s1 = "emit (TaskStarted ''Creating Redwood app'') ?s0"
  let ?rest = "tl (mainTasks e a)"
  obtain r s2 where run: "Listr_run (createProjectTasks e a) ?s1 = (r, s2)"
    by (cases "Listr_run (createProjectTasks e a) ?s1")
  from withinD[OF within_createProjectTasks, of e a ?s1] run obtain ys where
    ys: "out s2 = TaskStarted ''Creating Redwood app'' # ys" by (auto simp: emit_def)
  have m: "mainTasks e a = \<lparr>title = ''Creating Redwood app'', enabled = True, skip = NoSkip,
       task_fn = Listr_run (createProjectTasks e a)\<rparr> # ?rest"
    by (simp add: mainTasks_def)
  have rest: "within (Listr_run ?rest) (drop 5 (fixedOrder e a))"
    unfolding mainTasks_def fixedOrder_def
    using within_task[OF within_installNodeModulesTasks
        within_task[OF within_execaTask within_task[OF within_execaTask within_Nil]]]
    by simp
  show ?thesis
  proof (cases r)
    case Completed
    from withinD[OF rest, of s2] obtain zs where
      "out (snd (Listr_run ?rest s2)) = out s2 @ zs" by blast
    moreover have "runTasks e a = Listr_run ?rest s2"
      unfolding runTasks_def by (subst m) (simp add: run Completed)
    ultimately show ?thesis using ys by simp
  next
    case (Raised err)
    have "runTasks e a = (r, s2)"
      unfolding runTasks_def by (subst m) (simp add: run Raised)
    then show ?thesis using ys by simp
  next
    case (Exited n)
    have "runTasks e a = (r, s2)"
      unfolding runTasks_def by (subst m) (simp add: run Exited)
    then show ?thesis using ys by simp
  qed
qed

lemma trace_main_first:
  assumes "targetDir a \<noteq> []"
  shows "\<exists>ys. trace (main e a) = TaskStarted ''Creating Redwood app'' # ys"
proof -
  obtain r s where rs: "runTasks e a = (r, s)" by (cases "runTasks e a")
  with out_runTasks_first[of e a] obtain ys where
    "out s = TaskStarted ''Creating Redwood app'' # ys" by auto
  then show ?thesis using assms rs by (cases r) (simp_all add: main_def)
qed

lemma version_lines_entries:
  assumes "distinct (map fst vs)" "set xs \<subseteq> set vs"
  shows "map (versionMessage e vs) (filter (notSatisfied vs) (map fst xs))
         = map (\<lambda>(name, info). style e SError (name @ '' '' @ tpl (vi_wanted info)
                   @ '' required, but you have '' @ tpl (vi_version info)))
             (filter (\<lambda>(name, info). \<not> vi_isSatisfied info) xs)"
  using assms(2)
proof (induction xs)
  case Nil
  show ?case by simp
next
  case (Cons x xs)
  obtain n i where x: "x = (n, i)" by (cases x)
  have "map_of vs n = Some i" using Cons.prems x assms(1) by simp
  then show ?case using Cons x by (simp add: versionMessage_def notSatisfied_def)
qed

lemma Listr_run_abort:
  assumes "Listr_run pre s0 = (Completed, s1)" "enabled t" "skip t = NoSkip"
    "task_fn t (emit (TaskStarted (title t)) s1) = (Raised err, s)"
  shows "Listr_run (pre @ t # post) s0 = (Raised err, s)"
  using assms(1)
proof (induction pre arbitrary: s0)
  case Nil
  then show ?case using assms(2-4) by simp
next
  case (Cons p pre)
  show ?case
  proof (cases "enabled p")
    case False
    then show ?thesis using Cons by simp
  next
    case True
    show ?thesis
    proof (cases "skip p")
      case NoSkip
      obtain r s' where run: "task_fn p (emit (TaskStarted (title p)) s0) = (r, s')"
        by (cases "task_fn p (emit (TaskStarted (title p)) s0)")
      with Cons.prems True NoSkip have "r = Completed" by (cases r) auto
      with Cons True NoSkip run show ?thesis by simp
    qed (use Cons True in simp_all)
  qed
qed

lemma runTasks_no_install:
  assumes "\<not> yarnInstall a"
  shows "runTasks e a =
     (case createDirectoryTask e a
             \<lparr>fs = fs0 e,
              out = [TaskStarted ''Creating Redwood app'',
                     TaskStarted ''Checking node and yarn compatibility'',
                     TaskSkipped ''Checking node and yarn compatibility''
                       (Some ''Warning: skipping check on request''),
                     TaskStarted (directoryTitle e a)]\<rparr> of
        (Completed, s') \<Rightarrow>
          (Completed,
           s'\<lparr>out := out s' @ [TaskStarted ''Installing packages'',
                               TaskStarted installTitle,
                               TaskSkipped installTitle (Some ''skipped on request''),
                               TaskStarted ''Generating types'',
                               TaskSkipped ''Generating types'' None]\<rparr>)
      | (r, s') \<Rightarrow> (r, s'))"
  using assms
  by (simp add: runTasks_def mainTasks_def createProjectTasks_def installNodeModulesTasks_def
      emit_def split: prod.splits outcome.splits)

lemma copyTemplate_events:
  "copyTemplate e a s = (r, s') \<Longrightarrow>
     \<exists>ys. out s' = out s @ ys \<and> set ys \<subseteq> {CopySync (overwrite a), Rename}"
  by (auto simp: copyTemplate_def emit_def split: prod.splits option.splits)

lemma createDirectoryTask_events:
  assumes "createDirectoryTask e a s = (r, s')"
  shows "\<exists>ys. out s' = out s @ ys
           \<and> set ys \<subseteq> range ConsoleError \<union> {EnsureDirSync, CopySync (overwrite a), Rename}"
proof -
  have c: "\<exists>ys. out s' = out s @ ys
           \<and> set ys \<subseteq> range ConsoleError \<union> {EnsureDirSync, CopySync (overwrite a), Rename}"
    if "copyTemplate e a s = (r, s')"
    using copyTemplate_events[OF that] by auto
  have d: "\<exists>ys. out s' = out s @ ys
           \<and> set ys \<subseteq> range ConsoleError \<union> {EnsureDirSync, CopySync (overwrite a), Rename}"
    if "copyTemplate e a (emit EnsureDirSync s) = (r, s')"
  proof -
    from copyTemplate_events[OF that] obtain ys where
      "out s' = out s @ EnsureDirSync # ys" "set ys \<subseteq> {CopySync (overwrite a), Rename}"
      by (auto simp: emit_def)
    then show ?thesis by (intro exI[of _ "EnsureDirSync # ys"]) auto
  qed
  show ?thesis
    using assms c d
    by (auto simp: createDirectoryTask_def emit_def
        split: if_splits sum.splits option.splits)
qed

lemma createDirectoryTask_existing:
  assumes "fs0 e (newAppDir e a) = IsDir entries" "entries \<noteq> []" "\<not> overwrite a"
    and "fs s = fs0 e"
  shows "createDirectoryTask e a s = (Exited 1, emit (ConsoleError (notEmptyMessage e a)) s)"
  using assms
  by (simp add: createDirectoryTask_def appDirExists_def existsSync_def readdirSync_def
      notEmptyMessage_def)

lemma runTasks_existing:
  assumes "fs0 e (newAppDir e a) = IsDir entries" "entries \<noteq> []" "\<not> overwrite a"
  shows "runTasks e a =
     (if yarnInstall a \<and> \<not> isSatisfied (checkNodeVersion e) then
        (Raised (join nl (logStatements e (checkNodeVersion e))),
         \<lparr>fs = fs0 e,
          out = [TaskStarted ''Creating Redwood app'',
                 TaskStarted ''Checking node and yarn compatibility'', CheckNodeVersion]\<rparr>)
      else
        (Exited 1,
         \<lparr>fs = fs0 e,
          out = TaskStarted ''Creating Redwood app''
                # TaskStarted ''Checking node and yarn compatibility''
                # (if yarnInstall a then CheckNodeVersion
                   else TaskSkipped ''Checking node and yarn compatibility''
                          (Some ''Warning: skipping check on request''))
                # [TaskStarted (directoryTitle e a), ConsoleError (notEmptyMessage e a)]\<rparr>))"
  by (simp add: runTasks_def mainTasks_def createProjectTasks_def checkVersionsTask_def Let_def
      createDirectoryTask_existing[OF assms] emit_def)

section \<open>Properties of the provider\<close>

lemma rwLink_unfold:
  "rwLink au fc op forward
     = withToken au op (\<lambda>o1. authMiddleware au fc o1 (\<lambda>o2. httpLink (fc_uri fc) o2 forward))"
  by (simp add: rwLink_def concat_link_def)

lemma execute_rwLink:
  "execute (rwLink au fc) op =
     (case tokenContext au of
        Inl err \<Rightarrow> Failed err
      | Inr tok \<Rightarrow>
          Sent \<lparr>req_uri = fc_uri fc, req_query = op_query op,
                req_headers = fallbackHeaders ++ (fc_headers fc ++ authHeaders au tok)\<rparr>)"
  by (simp add: execute_def rwLink_unfold withToken_def authMiddleware_def httpLink_def
      split: sum.splits)

lemma tokenContext_null:
  "\<not> isAuthenticated au \<or> getToken au = None \<Longrightarrow> tokenContext au = Inr TNull"
  by (auto simp: tokenContext_def split: option.splits)

lemma rest_apply:
  "rest config k = (if k = ''link'' \<or> k = ''cacheConfig'' then None else config k)"
  by (simp add: rest_def restrict_map_def)

lemma clientOptions_apply:
  "clientOptions au fc (Some config) k =
     (if k = ''link'' then Some (clientLink au fc config)
      else if k = ''cacheConfig'' then None
      else case config k of
        Some v \<Rightarrow> Some v
      | None \<Rightarrow>
          if k = ''cache'' then Some (InMemoryCache (getProp config ''cacheConfig''))
          else if k = ''defaultOptions'' then Some defaultOptions
          else None)"
  by (simp add: clientOptions_def map_add_def rest_apply split: option.splits)

lemma clientOptions_None: "clientOptions au fc None = clientOptions au fc (Some Map.empty)"
  by (simp add: clientOptions_def)

section \<open>The claims about the scaffolder\<close>

text \<open>
  Claim C7. When the scaffolder is invoked with no positional project-directory argument,
  it prints the usage hint (first the line asking for the project directory, on the error
  stream) and exits with code 1; no task is started and no step is run.
\<close>

theorem no_directory_argument_exits:
  assumes "args a = []"
  shows "trace (main e a) = usage_hint e \<and> exit_code (main e a) = 1
         \<and> final_fs (main e a) = fs0 e
         \<and> hd (trace (main e a)) = ConsoleError ''Please specify the project directory''
         \<and> steps (trace (main e a)) = []"
  using assms by (simp add: main_def targetDir_def replace_commas_def steps_usage)
     (simp add: usage_hint_def)

theorem no_directory_argument_exits_witness:
  "args (example_argv\<lparr>args := []\<rparr>) = []
   \<and> exit_code (main example_env (example_argv\<lparr>args := []\<rparr>)) = 1
   \<and> trace (main example_env (example_argv\<lparr>args := []\<rparr>))
       = [ConsoleError ''Please specify the project directory'',
          ConsoleLog ''  yarn create redwood-app <project-directory>'',
          ConsoleLog [],
          ConsoleLog ''For example:'',
          ConsoleLog ''  yarn create redwood-app my-redwood-app'']"
  using no_directory_argument_exits[of "example_argv\<lparr>args := []\<rparr>" example_env]
  by (simp add: usage_hint_def example_env_def)



text \<open>
  Claim C10, as stated: several positional arguments are joined with a dash. This fails
  for an argument that contains a comma: the arguments \<open>a,b\<close> and \<open>c\<close> give \<open>a-b-c\<close>,
  and joining them with a dash gives \<open>a,b-c\<close>.
\<close>

theorem several_arguments_counterexample:
  "targetDir \<lparr>args = [''a,b'', ''c''], yarnInstall = True, typescript = False,
              overwrite = False\<rparr> = ''a-b-c''
   \<and> join ''-'' [''a,b'', ''c''] = ''a,b-c''
   \<and> targetDir \<lparr>args = [''a,b'', ''c''], yarnInstall = True, typescript = False,
                overwrite = False\<rparr> \<noteq> join ''-'' [''a,b'', ''c'']"
  by (simp add: targetDir_def replace_commas_def)

text \<open>
  Claim C10, amended. With more than one positional argument the invocation is not
  rejected: the target directory name is the arguments joined with a dash after every
  comma inside an argument has been replaced by a dash too (so it is the plain join when
  no argument contains a comma), it is not empty, and the run proceeds against the
  directory of that name: the first task is started.
\<close>

theorem several_arguments_joined:
  assumes "length (args a) > 1"
  shows "targetDir a = join ''-'' (map replace_commas (args a))
         \<and> ((\<forall>x \<in> set (args a). CHR '','' \<notin> set x) \<longrightarrow> targetDir a = join ''-'' (args a))
         \<and> targetDir a \<noteq> []
         \<and> newAppDir e a = path_resolve e (join ''-'' (map replace_commas (args a)))
         \<and> (\<exists>ys. trace (main e a) = TaskStarted ''Creating Redwood app'' # ys)"
proof -
  have t: "targetDir a = join ''-'' (map replace_commas (args a))"
    by (simp add: targetDir_def replace_commas_join)
  have ne: "targetDir a \<noteq> []"
    unfolding t using assms by (intro join_nonempty) simp_all
  have "map replace_commas (args a) = args a" if "\<forall>x \<in> set (args a). CHR '','' \<notin> set x"
    using that by (simp add: map_idI replace_commas_id)
  then show ?thesis
    using t ne trace_main_first[OF ne, of e] by (simp add: newAppDir_def)
qed

theorem several_arguments_joined_witness:
  "length (args (example_argv\<lparr>args := [''a'', ''b'']\<rparr>)) > 1
   \<and> CHR '','' \<notin> set ''a'' \<and> CHR '','' \<notin> set ''b''
   \<and> targetDir (example_argv\<lparr>args := [''a'', ''b'']\<rparr>) = ''a-b''
   \<and> newAppDir example_env (example_argv\<lparr>args := [''a'', ''b'']\<rparr>) = ''/work/a-b''"
  using several_arguments_joined[of "example_argv\<lparr>args := [''a'', ''b'']\<rparr>" example_env]
  by (simp add: example_env_def example_argv_def replace_commas_def)

text \<open>
  Claim C6. When the version check is not satisfied, the task rejects with one error whose
  text is the lines joined by newlines: one line per unsatisfied dependency, in the order
  of the result object, naming the dependency, the wanted range and the installed version,
  followed by the two lines that point to the requirements documentation. A satisfied
  dependency contributes no line. (The names of the result object are distinct, as the
  keys of an object are.)
\<close>

theorem version_check_failure_messages:
  assumes "distinct (map fst (versions (checkNodeVersion e)))"
    and "\<not> isSatisfied (checkNodeVersion e)"
  shows "checkVersionsTask e s =
           (Raised (join nl
              (map (\<lambda>(name, info). style e SError (name @ '' '' @ tpl (vi_wanted info)
                       @ '' required, but you have '' @ tpl (vi_version info)))
                 (filter (\<lambda>(name, info). \<not> vi_isSatisfied info)
                    (versions (checkNodeVersion e)))
               @ [style e SHeader (nl @ ''Visit requirements documentation:''),
                  style e SWarning
                    (''https://learn.redwoodjs.com/docs/tutorial/prerequisites/#nodejs-and-yarn-versions''
                     @ nl)])),
            emit CheckNodeVersion s)"
  using assms version_lines_entries[OF assms(1) subset_refl, of e]
  by (simp add: checkVersionsTask_def logStatements_def Let_def)

theorem version_check_failure_messages_witness:
  "distinct (map fst (versions (checkNodeVersion (example_env\<lparr>checkNodeVersion := old_node\<rparr>))))
   \<and> \<not> isSatisfied (checkNodeVersion (example_env\<lparr>checkNodeVersion := old_node\<rparr>))
   \<and> fst (checkVersionsTask (example_env\<lparr>checkNodeVersion := old_node\<rparr>)
            \<lparr>fs = (\<lambda>p. Missing), out = []\<rparr>)
       = Raised (''node >=14 required, but you have 12.0.0'' @ nl @ nl
                 @ ''Visit requirements documentation:'' @ nl
                 @ ''https://learn.redwoodjs.com/docs/tutorial/prerequisites/#nodejs-and-yarn-versions''
                 @ nl)"
  using version_check_failure_messages[of "example_env\<lparr>checkNodeVersion := old_node\<rparr>"
      "\<lparr>fs = (\<lambda>p. Missing), out = []\<rparr>"]
  by (simp add: example_env_def old_node_def tpl_def)

text \<open>
  Claim C4. When a task of the run raises, after the tasks before it completed, the run
  ends there with that error: the tasks after it contribute nothing. The handler prints an
  empty line and the error, then the warning that the directory was created exactly when
  the target directory exists in the file system the failing task left, and the process
  exits with code 1.
\<close>

theorem task_failure_aborts_run:
  assumes "targetDir a \<noteq> []"
    and "mainTasks e a = pre @ t # post"
    and "Listr_run pre \<lparr>fs = fs0 e, out = []\<rparr> = (Completed, s1)"
    and "enabled t" and "skip t = NoSkip"
    and "task_fn t (emit (TaskStarted (title t)) s1) = (Raised err, s)"
  shows "runTasks e a = (Raised err, s)
         \<and> trace (main e a)
             = out s @ [ConsoleLog [], ConsoleLogError err]
               @ (if existsSync (fs s) (newAppDir e a) then [ConsoleLog (createdWarning e a)]
                  else [])
         \<and> exit_code (main e a) = 1"
proof -
  have "runTasks e a = (Raised err, s)"
    unfolding runTasks_def assms(2) by (rule Listr_run_abort[OF assms(3-6)])
  then show ?thesis using assms(1) by (simp add: main_def catchHandler_def)
qed

theorem task_failure_aborts_run_witness:
  "trace (main (example_env\<lparr>checkNodeVersion := old_node\<rparr>) example_argv)
     = [TaskStarted ''Creating Redwood app'',
        TaskStarted ''Checking node and yarn compatibility'',
        CheckNodeVersion,
        ConsoleLog [],
        ConsoleLogError
          (join nl (logStatements (example_env\<lparr>checkNodeVersion := old_node\<rparr>) old_node))]
   \<and> exit_code (main (example_env\<lparr>checkNodeVersion := old_node\<rparr>) example_argv) = 1
   \<and> trace (main install_fails example_argv)
     = [TaskStarted ''Creating Redwood app'',
        TaskStarted ''Checking node and yarn compatibility'',
        CheckNodeVersion,
        TaskStarted (''Creating directory '' @ apos @ ''/work/my-app'' @ apos),
        EnsureDirSync, CopySync False, Rename,
        TaskStarted ''Installing packages'',
        TaskStarted installTitle,
        Execa ''yarn install'',
        ConsoleLog [],
        ConsoleLogError ''Command failed: yarn install'',
        ConsoleLog (createdWarning install_fails example_argv)]
   \<and> exit_code (main install_fails example_argv) = 1"
proof -
  let ?e = "example_env\<lparr>checkNodeVersion := old_node\<rparr>"
  let ?init = "\<lparr>fs = fs0 ?e, out = []\<rparr>"
  let ?t = "hd (mainTasks ?e example_argv)"
  let ?after = "snd (task_fn ?t (emit (TaskStarted (title ?t)) ?init))"
  have 1: "trace (main ?e example_argv)
             = out ?after @ [ConsoleLog [], ConsoleLogError (join nl (logStatements ?e old_node))]
               @ (if existsSync (fs ?after) (newAppDir ?e example_argv)
                  then [ConsoleLog (createdWarning ?e example_argv)] else [])
           \<and> exit_code (main ?e example_argv) = 1"
    using task_failure_aborts_run[of example_argv ?e "[]" ?t "tl (mainTasks ?e example_argv)"
        ?init "join nl (logStatements ?e old_node)" ?after]
    by (simp add: script_defs Let_def example_env_def example_argv_def old_node_def)
  let ?f = install_fails
  let ?start = "\<lparr>fs = fs0 ?f, out = []\<rparr>"
  let ?pre = "take 1 (mainTasks ?f example_argv)"
  let ?u = "mainTasks ?f example_argv ! 1"
  let ?mid = "snd (Listr_run ?pre ?start)"
  let ?fin = "snd (task_fn ?u (emit (TaskStarted (title ?u)) ?mid))"
  have 2: "trace (main ?f example_argv)
             = out ?fin @ [ConsoleLog [], ConsoleLogError ''Command failed: yarn install'']
               @ (if existsSync (fs ?fin) (newAppDir ?f example_argv)
                  then [ConsoleLog (createdWarning ?f example_argv)] else [])
           \<and> exit_code (main ?f example_argv) = 1"
    using task_failure_aborts_run[of example_argv ?f ?pre ?u "drop 2 (mainTasks ?f example_argv)"
        ?mid "''Command failed: yarn install''" ?fin]
    by (simp add: script_defs Let_def install_fails_def example_env_def example_argv_def
        old_node_def)
  show ?thesis
    using 1 2
    by (simp add: script_defs Let_def install_fails_def example_env_def example_argv_def
        old_node_def)
qed

text \<open>
  Claim C3. With \<open>--no-yarn-install\<close> no subprocess is executed at all, in particular
  neither \<open>yarn install\<close> nor \<open>yarn rw-gen\<close>. A run that gets through the creation
  of the project marks the install task and the type-generation task as skipped: each is
  reported as started and then at once as skipped, without its function being called, and
  the success message follows.
\<close>

theorem no_yarn_install_skips_steps:
  assumes "\<not> yarnInstall a"
  shows "(\<forall>cmd. Execa cmd \<notin> set (trace (main e a)))
         \<and> (exit_code (main e a) = 0 \<longrightarrow>
              TaskSkipped installTitle (Some ''skipped on request'') \<in> set (trace (main e a))
              \<and> TaskSkipped ''Generating types'' None \<in> set (trace (main e a))
              \<and> (\<exists>before. trace (main e a)
                    = before
                      @ [TaskStarted ''Installing packages'',
                         TaskStarted installTitle,
                         TaskSkipped installTitle (Some ''skipped on request''),
                         TaskStarted ''Generating types'',
                         TaskSkipped ''Generating types'' None]
                      @ map ConsoleLog (successLines e a)))"
proof (cases "targetDir a = []")
  case True
  then show ?thesis by (simp add: main_def usage_hint_def)
next
  case False
  let ?s = "\<lparr>fs = fs0 e,
              out = [TaskStarted ''Creating Redwood app'',
                     TaskStarted ''Checking node and yarn compatibility'',
                     TaskSkipped ''Checking node and yarn compatibility''
                       (Some ''Warning: skipping check on request''),
                     TaskStarted (directoryTitle e a)]\<rparr>"
  let ?tail = "[TaskStarted ''Installing packages'',
                TaskStarted installTitle,
                TaskSkipped installTitle (Some ''skipped on request''),
                TaskStarted ''Generating types'',
                TaskSkipped ''Generating types'' None]"
  obtain r s' where d: "createDirectoryTask e a ?s = (r, s')"
    by (cases "createDirectoryTask e a ?s")
  from createDirectoryTask_events[OF d] obtain ys where
    ys: "out s' = out ?s @ ys"
        "set ys \<subseteq> range ConsoleError \<union> {EnsureDirSync, CopySync (overwrite a), Rename}"
    by blast
  have no: "Execa cmd \<notin> set ys" for cmd
    using ys(2) by auto
  show ?thesis
  proof (cases r)
    case Completed
    then have t: "trace (main e a) = (out ?s @ ys) @ ?tail @ map ConsoleLog (successLines e a)"
      using False d ys(1) by (simp add: main_def runTasks_no_install[OF assms])
    then have "\<exists>before. trace (main e a)
        = before @ ?tail @ map ConsoleLog (successLines e a)"
      by blast
    moreover have "\<forall>cmd. Execa cmd \<notin> set (trace (main e a))"
      unfolding t using no by auto
    moreover have "TaskSkipped installTitle (Some ''skipped on request'')
        \<in> set (trace (main e a))"
      "TaskSkipped ''Generating types'' None \<in> set (trace (main e a))"
      unfolding t by simp_all
    ultimately show ?thesis by blast
  next
    case (Raised err)
    then have "trace (main e a) = out ?s @ ys @ catchHandler e a err s'"
      and "exit_code (main e a) = 1"
      using False d ys(1) by (simp_all add: main_def runTasks_no_install[OF assms])
    then show ?thesis using no by (auto simp: catchHandler_def)
  next
    case (Exited n)
    then have t: "trace (main e a) = out ?s @ ys" and "exit_code (main e a) = n"
      using False d ys(1) by (simp_all add: main_def runTasks_no_install[OF assms])
    moreover have "n = 1"
      using runTasks_Exited[of e a n s'] d Exited by (simp add: runTasks_no_install[OF assms])
    ultimately show ?thesis using no by auto
  qed
qed

theorem no_yarn_install_skips_steps_witness:
  "\<not> yarnInstall (example_argv\<lparr>yarnInstall := False\<rparr>)
   \<and> exit_code (main example_env (example_argv\<lparr>yarnInstall := False\<rparr>)) = 0
   \<and> TaskSkipped installTitle (Some ''skipped on request'')
        \<in> set (trace (main example_env (example_argv\<lparr>yarnInstall := False\<rparr>)))
   \<and> TaskSkipped ''Generating types'' None
        \<in> set (trace (main example_env (example_argv\<lparr>yarnInstall := False\<rparr>)))
   \<and> Execa ''yarn install''
        \<notin> set (trace (main example_env (example_argv\<lparr>yarnInstall := False\<rparr>)))
   \<and> Execa ''yarn rw-gen''
        \<notin> set (trace (main example_env (example_argv\<lparr>yarnInstall := False\<rparr>)))
   \<and> take 11 (trace (main example_env (example_argv\<lparr>yarnInstall := False\<rparr>)))
       = [TaskStarted ''Creating Redwood app'',
          TaskStarted ''Checking node and yarn compatibility'',
          TaskSkipped ''Checking node and yarn compatibility''
            (Some ''Warning: skipping check on request''),
          TaskStarted (''Creating directory '' @ apos @ ''/work/my-app'' @ apos),
          EnsureDirSync, CopySync False, Rename,
          TaskStarted ''Installing packages'',
          TaskStarted installTitle,
          TaskSkipped installTitle (Some ''skipped on request''),
          TaskStarted ''Generating types'']"
proof -
  have "exit_code (main example_env (example_argv\<lparr>yarnInstall := False\<rparr>)) = 0"
    by (simp add: script_defs Let_def example_env_def example_argv_def)
  moreover have "take 11 (trace (main example_env (example_argv\<lparr>yarnInstall := False\<rparr>)))
       = [TaskStarted ''Creating Redwood app'',
          TaskStarted ''Checking node and yarn compatibility'',
          TaskSkipped ''Checking node and yarn compatibility''
            (Some ''Warning: skipping check on request''),
          TaskStarted (''Creating directory '' @ apos @ ''/work/my-app'' @ apos),
          EnsureDirSync, CopySync False, Rename,
          TaskStarted ''Installing packages'',
          TaskStarted installTitle,
          TaskSkipped installTitle (Some ''skipped on request''),
          TaskStarted ''Generating types'']"
    by (simp add: script_defs Let_def example_env_def example_argv_def)
  ultimately show ?thesis
    using no_yarn_install_skips_steps[of "example_argv\<lparr>yarnInstall := False\<rparr>" example_env]
    by (simp add: example_argv_def)
qed

text \<open>
  Claim C2. When the target directory exists, is a directory with at least one entry, and
  \<open>--overwrite\<close> was not given, the process exits with code 1, an error has been
  printed, and the template is never copied. Unless the version check fails first, the
  last thing printed is the message that the directory already exists and is not empty.
\<close>

theorem nonempty_directory_exits:
  assumes "fs0 e (newAppDir e a) = IsDir entries" "entries \<noteq> []" "\<not> overwrite a"
  shows "exit_code (main e a) = 1
         \<and> (\<forall>ov. CopySync ov \<notin> set (trace (main e a)))
         \<and> (\<exists>m. ConsoleError m \<in> set (trace (main e a))
                \<or> ConsoleLogError m \<in> set (trace (main e a)))
         \<and> (targetDir a \<noteq> [] \<and> (yarnInstall a \<longrightarrow> isSatisfied (checkNodeVersion e))
              \<longrightarrow> last (trace (main e a)) = ConsoleError (notEmptyMessage e a))"
proof (cases "targetDir a = []")
  case True
  then have "trace (main e a) = usage_hint e" "exit_code (main e a) = 1"
    by (simp_all add: main_def)
  then show ?thesis using True by (auto simp: usage_hint_def)
next
  case False
  show ?thesis
  proof (cases "yarnInstall a \<and> \<not> isSatisfied (checkNodeVersion e)")
    case True
    then have "trace (main e a)
        = [TaskStarted ''Creating Redwood app'',
           TaskStarted ''Checking node and yarn compatibility'', CheckNodeVersion]
          @ catchHandler e a (join nl (logStatements e (checkNodeVersion e)))
              \<lparr>fs = fs0 e,
               out = [TaskStarted ''Creating Redwood app'',
                 TaskStarted ''Checking node and yarn compatibility'', CheckNodeVersion]\<rparr>"
      and "exit_code (main e a) = 1"
      using False by (simp_all add: main_def runTasks_existing[OF assms])
    then show ?thesis using True by (auto simp: catchHandler_def)
  next
    case ok: False
    then have "trace (main e a)
        = TaskStarted ''Creating Redwood app''
          # TaskStarted ''Checking node and yarn compatibility''
          # (if yarnInstall a then CheckNodeVersion
             else TaskSkipped ''Checking node and yarn compatibility''
                    (Some ''Warning: skipping check on request''))
          # [TaskStarted (directoryTitle e a), ConsoleError (notEmptyMessage e a)]"
      and "exit_code (main e a) = 1"
      using False by (auto simp: main_def runTasks_existing[OF assms])
    then show ?thesis by auto
  qed
qed

theorem nonempty_directory_exits_witness:
  "fs0 occupied (newAppDir occupied example_argv) = IsDir [''README.md'']
   \<and> \<not> overwrite example_argv
   \<and> exit_code (main occupied example_argv) = 1
   \<and> CopySync False \<notin> set (trace (main occupied example_argv))
   \<and> last (trace (main occupied example_argv))
       = ConsoleError (nl @ apos @ ''/work/my-app'' @ apos
                       @ '' already exists and is not empty'' @ nl)"
proof -
  have h: "fs0 occupied (newAppDir occupied example_argv) = IsDir [''README.md'']"
    by (simp add: occupied_def example_env_def example_argv_def newAppDir_def targetDir_def
        replace_commas_def)
  have m: "notEmptyMessage occupied example_argv
       = nl @ apos @ ''/work/my-app'' @ apos @ '' already exists and is not empty'' @ nl"
    by (simp add: notEmptyMessage_def occupied_def example_env_def example_argv_def
        newAppDir_def targetDir_def replace_commas_def)
  have t: "targetDir example_argv \<noteq> []" "isSatisfied (checkNodeVersion occupied)"
    by (simp_all add: occupied_def example_env_def example_argv_def targetDir_def
        replace_commas_def)
  show ?thesis
    using nonempty_directory_exits[OF h] h m t
    by (simp add: example_argv_def)
qed

section \<open>The claims about the provider\<close>

text \<open>
  Claim C1, as stated: a request carries neither auth header when no token is present.
  This fails when the headers of the fetch configuration already hold them: the user is
  authenticated, \<open>getToken\<close> resolves to \<open>null\<close>, and the request still goes out with
  both headers, taken from the fetch configuration.
\<close>

theorem auth_headers_counterexample:
  "tokenContext expired = Inr TNull
   \<and> \<not> truthy_token TNull
   \<and> sent_header (execute (rwLink expired duped_config) example_op) ''authorization''
       = Some ''Bearer stale''
   \<and> sent_header (execute (rwLink expired duped_config) example_op) ''auth-provider''
       = Some ''netlify''"
  by (simp add: execute_rwLink tokenContext_def expired_def duped_config_def sent_header_def
      authHeaders_def)

text \<open>
  Claim C1, amended. Every request sent through the provider's own link chain goes to the
  URI of the fetch configuration. When the token of the context is present (a non-empty
  string), its headers include \<open>authorization: Bearer <token>\<close> and
  \<open>auth-provider: <type>\<close>. When it is not, the auth link adds neither header: the
  request has each of the two headers only if the fetch configuration supplies it, and
  then with the value given there. A rejected \<open>getToken\<close> sends no request, and the
  token of the context is \<open>null\<close> whenever the user is not authenticated or no token
  getter is supplied.
\<close>

theorem auth_headers_follow_token:
  "(\<forall>tok. tokenContext au = Inr tok \<longrightarrow>
      (\<exists>req. execute (rwLink au fc) op = Sent req
         \<and> req_uri req = fc_uri fc
         \<and> (if truthy_token tok
             then req_headers req ''authorization'' = Some (''Bearer '' @ token_text tok)
                  \<and> req_headers req ''auth-provider'' = Some (auth_type au)
             else req_headers req ''authorization'' = fc_headers fc ''authorization''
                  \<and> req_headers req ''auth-provider'' = fc_headers fc ''auth-provider'')))
   \<and> (\<forall>err. tokenContext au = Inl err \<longrightarrow> execute (rwLink au fc) op = Failed err)
   \<and> (\<not> isAuthenticated au \<or> getToken au = None \<longrightarrow> tokenContext au = Inr TNull)"
  using tokenContext_null[of au]
  by (auto simp: execute_rwLink authHeaders_def fallbackHeaders_def map_add_def
      split: option.splits)

theorem auth_headers_follow_token_witness:
  "tokenContext signed_in = Inr (TString ''abc123'')
   \<and> truthy_token (TString ''abc123'')
   \<and> sent_header (execute (rwLink signed_in plain_config) example_op) ''authorization''
       = Some ''Bearer abc123''
   \<and> sent_header (execute (rwLink signed_in plain_config) example_op) ''auth-provider''
       = Some ''netlify''
   \<and> tokenContext (signed_in\<lparr>isAuthenticated := False\<rparr>) = Inr TNull
   \<and> sent_header (execute (rwLink (signed_in\<lparr>isAuthenticated := False\<rparr>) plain_config)
        example_op) ''authorization'' = None
   \<and> sent_header (execute (rwLink (signed_in\<lparr>isAuthenticated := False\<rparr>) plain_config)
        example_op) ''auth-provider'' = None"
proof -
  have t: "tokenContext signed_in = Inr (TString ''abc123'')"
    by (simp add: tokenContext_def signed_in_def)
  have n: "\<not> isAuthenticated (signed_in\<lparr>isAuthenticated := False\<rparr>)" by simp
  from auth_headers_follow_token[of signed_in plain_config example_op] t
  have 1: "sent_header (execute (rwLink signed_in plain_config) example_op) ''authorization''
             = Some ''Bearer abc123''
           \<and> sent_header (execute (rwLink signed_in plain_config) example_op) ''auth-provider''
             = Some ''netlify''"
    by (auto simp: sent_header_def signed_in_def)
  from auth_headers_follow_token[of "signed_in\<lparr>isAuthenticated := False\<rparr>" plain_config
      example_op] n
  have 2: "tokenContext (signed_in\<lparr>isAuthenticated := False\<rparr>) = Inr TNull
           \<and> sent_header (execute (rwLink (signed_in\<lparr>isAuthenticated := False\<rparr>) plain_config)
                example_op) ''authorization'' = None
           \<and> sent_header (execute (rwLink (signed_in\<lparr>isAuthenticated := False\<rparr>) plain_config)
                example_op) ''auth-provider'' = None"
    by (auto simp: sent_header_def plain_config_def)
  show ?thesis using t 1 2 by simp
qed

text \<open>
  Claim C5, as stated: the cache cannot be set through the configuration and is always
  built from \<open>cacheConfig\<close>. This fails for a configuration object that carries a
  \<open>cache\<close> property: the declared type leaves the property out, but the code spreads
  every remaining property over its own options, so the supplied cache replaces the one
  built from \<open>cacheConfig\<close>.
\<close>

theorem client_options_counterexample:
  "getProp own_cache_config ''cacheConfig'' = JObj [(''addTypename'', JBool False)]
   \<and> clientOptions signed_in plain_config (Some own_cache_config) ''cache''
       = Some (InMemoryCache (JObj [(''resultCaching'', JBool False)]))
   \<and> clientOptions signed_in plain_config (Some own_cache_config) ''cache''
       \<noteq> Some (InMemoryCache (getProp own_cache_config ''cacheConfig''))"
  by (simp add: clientOptions_apply own_cache_config_def getProp_def)

text \<open>
  Claim C5, amended. Every option supplied in the configuration, other than the dedicated
  fields \<open>link\<close> and \<open>cacheConfig\<close>, reaches the client with the supplied value and so
  overrides the provider's default; what is not supplied keeps the provider's value. The
  link cannot be set directly: the client's link is always the one computed from the
  \<open>link\<close> field (the function applied to the provider's link, the link object itself, or
  the provider's link). The cache is the \<open>InMemoryCache\<close> built from \<open>cacheConfig\<close>
  unless the object carries a \<open>cache\<close> property of its own, which then is the client's
  cache. \<open>cacheConfig\<close> itself is not passed on.
\<close>

theorem client_options_override:
  "(\<forall>k v. config k = Some v \<and> k \<noteq> ''link'' \<and> k \<noteq> ''cacheConfig''
       \<longrightarrow> clientOptions au fc (Some config) k = Some v)
   \<and> clientOptions au fc (Some config) ''link''
       = Some (case config ''link'' of
                 None \<Rightarrow> JLink (rwLink au fc)
               | Some (JFunction f) \<Rightarrow> JLink (f (rwLink au fc))
               | Some v \<Rightarrow> if truthy v then v else JLink (rwLink au fc))
   \<and> clientOptions au fc (Some config) ''cache''
       = Some (case config ''cache'' of
                 Some v \<Rightarrow> v
               | None \<Rightarrow>
                   InMemoryCache (case config ''cacheConfig'' of
                                    None \<Rightarrow> JUndefined
                                  | Some c \<Rightarrow> c))
   \<and> clientOptions au fc (Some config) ''defaultOptions''
       = Some (case config ''defaultOptions'' of
                 Some v \<Rightarrow> v
               | None \<Rightarrow>
                   JObj [(''watchQuery'',
                          JObj [(''fetchPolicy'', JStr ''cache-and-network''),
                                (''notifyOnNetworkStatusChange'', JBool True)])])
   \<and> clientOptions au fc (Some config) ''cacheConfig'' = None
   \<and> (\<forall>k. config k = None \<and> k \<noteq> ''link'' \<and> k \<noteq> ''cache'' \<and> k \<noteq> ''defaultOptions''
       \<longrightarrow> clientOptions au fc (Some config) k = None)"
proof -
  have "clientLink au fc config
      = (case config ''link'' of
           None \<Rightarrow> JLink (rwLink au fc)
         | Some (JFunction f) \<Rightarrow> JLink (f (rwLink au fc))
         | Some v \<Rightarrow> if truthy v then v else JLink (rwLink au fc))"
    by (simp add: clientLink_def getProp_def split: option.splits js_value.splits)
  then show ?thesis
    by (simp add: clientOptions_apply getProp_def defaultOptions_def split: option.splits)
qed

theorem client_options_override_witness:
  "example_config ''uri'' = Some (JStr ''/api/graphql'')
   \<and> clientOptions signed_in plain_config (Some example_config) ''uri''
       = Some (JStr ''/api/graphql'')
   \<and> clientOptions signed_in plain_config (Some example_config) ''defaultOptions''
       = Some (JObj [])
   \<and> example_config ''cache'' = None
   \<and> clientOptions signed_in plain_config (Some example_config) ''cache''
       = Some (InMemoryCache (JObj [(''addTypename'', JBool False)]))
   \<and> clientOptions signed_in plain_config (Some example_config) ''link''
       = Some (JLink (wrapLink (rwLink signed_in plain_config)))
   \<and> clientOptions signed_in plain_config (Some (example_config(''defaultOptions'' := None)))
        ''defaultOptions'' = Some defaultOptions
   \<and> clientOptions signed_in plain_config (Some own_cache_config) ''cache''
       = Some (InMemoryCache (JObj [(''resultCaching'', JBool False)]))"
proof -
  have c: "example_config ''uri'' = Some (JStr ''/api/graphql'')"
    "example_config ''defaultOptions'' = Some (JObj [])"
    "example_config ''cache'' = None"
    "example_config ''cacheConfig'' = Some (JObj [(''addTypename'', JBool False)])"
    "example_config ''link'' = Some (JFunction wrapLink)"
    "own_cache_config ''cache'' = Some (InMemoryCache (JObj [(''resultCaching'', JBool False)]))"
    by (simp_all add: example_config_def own_cache_config_def)
  show ?thesis
    using client_options_override[of example_config signed_in plain_config]
      client_options_override[of "example_config(''defaultOptions'' := None)" signed_in
        plain_config]
      client_options_override[of own_cache_config signed_in plain_config]
      c
    by (simp add: defaultOptions_def)
qed

text \<open>
  Claim C9. When the \<open>link\<close> field is a function, the client's link is that function
  applied to the provider's own link; when it is a link object (or any other truthy value
  that is not a function), that value is used unchanged; when it is absent, and when no
  configuration is given at all, the provider's own link is used. A falsy value such as
  \<open>null\<close>, which the declared type of the field does not admit, counts as absent. The
  provider's own link is the chain of the token link, the auth middleware and the HTTP
  link, run in that order.
\<close>

theorem client_link_from_config:
  "(\<forall>f. config ''link'' = Some (JFunction f)
       \<longrightarrow> clientOptions au fc (Some config) ''link'' = Some (JLink (f (rwLink au fc))))
   \<and> (\<forall>l. config ''link'' = Some (JLink l)
       \<longrightarrow> clientOptions au fc (Some config) ''link'' = Some (JLink l))
   \<and> (\<forall>v. config ''link'' = Some v \<and> truthy v \<and> (\<forall>f. v \<noteq> JFunction f)
       \<longrightarrow> clientOptions au fc (Some config) ''link'' = Some v)
   \<and> (config ''link'' = None
       \<longrightarrow> clientOptions au fc (Some config) ''link'' = Some (JLink (rwLink au fc)))
   \<and> (\<forall>v. config ''link'' = Some v \<and> \<not> truthy v
       \<longrightarrow> clientOptions au fc (Some config) ''link'' = Some (JLink (rwLink au fc)))
   \<and> clientOptions au fc None ''link'' = Some (JLink (rwLink au fc))
   \<and> rwLink au fc = from_links [withToken au, authMiddleware au fc, httpLink (fc_uri fc)]
   \<and> (\<forall>op forward. rwLink au fc op forward
         = withToken au op
             (\<lambda>op1. authMiddleware au fc op1 (\<lambda>op2. httpLink (fc_uri fc) op2 forward)))"
proof -
  have "clientLink au fc config = v"
    if "config ''link'' = Some v" "truthy v" "\<forall>f. v \<noteq> JFunction f" for v
    using that by (cases v) (simp_all add: clientLink_def getProp_def)
  moreover have "clientLink au fc config = JLink (rwLink au fc)" if "config ''link'' = None"
    using that by (simp add: clientLink_def getProp_def)
  moreover have "clientLink au fc config = JLink (rwLink au fc)"
    if "config ''link'' = Some v" "\<not> truthy v" for v
    using that by (simp add: clientLink_def getProp_def)
  moreover have "clientLink au fc config = JLink (f (rwLink au fc))"
    if "config ''link'' = Some (JFunction f)" for f
    using that by (simp add: clientLink_def getProp_def)
  moreover have "clientLink au fc Map.empty = JLink (rwLink au fc)"
    by (simp add: clientLink_def getProp_def)
  ultimately show ?thesis
    by (simp add: clientOptions_apply clientOptions_None rwLink_unfold) (simp add: rwLink_def)
qed

theorem client_link_from_config_witness:
  "example_config ''link'' = Some (JFunction wrapLink)
   \<and> clientOptions signed_in plain_config (Some example_config) ''link''
       = Some (JLink (wrapLink (rwLink signed_in plain_config)))
   \<and> (example_config(''link'' \<mapsto> JLink passLink)) ''link'' = Some (JLink passLink)
   \<and> clientOptions signed_in plain_config (Some (example_config(''link'' \<mapsto> JLink passLink)))
        ''link'' = Some (JLink passLink)
   \<and> (example_config(''link'' := None)) ''link'' = None
   \<and> clientOptions signed_in plain_config (Some (example_config(''link'' := None))) ''link''
       = Some (JLink (rwLink signed_in plain_config))"
proof -
  have c: "example_config ''link'' = Some (JFunction wrapLink)"
    by (simp add: example_config_def)
  show ?thesis
    using client_link_from_config[of example_config signed_in plain_config]
      client_link_from_config[of "example_config(''link'' \<mapsto> JLink passLink)" signed_in
        plain_config]
      client_link_from_config[of "example_config(''link'' := None)" signed_in plain_config]
      c
    by simp
qed

end
